theory Spec2Isabelle
  imports Main
begin

section \<open>Host commands and their responses\<close>

text \<open>
  The settings components talk to the desktop host through \<^verbatim>\<open>commands.*\<close>. A call yields a
  result object with \<^verbatim>\<open>status === "ok"\<close> and a payload, a result object with
  \<^verbatim>\<open>status === "error"\<close>, or a rejected promise (caught by the handler's \<^verbatim>\<open>catch\<close>).
  The host itself is an external collaborator: a handler of the model receives the
  response of every call it awaits as an argument and returns the calls it issued, in
  order, next to the component state it leaves.
\<close>

datatype 'a response = StatusOk 'a | StatusError string | Throws

datatype command =
    GetContextMappings
  | GetContextStylePrompts
  | UpdateContextMapping string string
  | DeleteContextMapping string
  | UpdateContextStylePrompt string "string option" "string option" "string option"
  | ResetContextStylePrompt string
  | GetCloudSttProviders
  | GetCloudSttConfig
  | SetCloudSttProvider string
  | SetCloudSttApiKey string string
  | SetCloudSttModel string string
  | TestCloudSttConnection string string

section \<open>Context mappings list (ContextMappingsList)\<close>

record ContextMapping =
  app_id :: string
  context_style :: string

record ContextStylePrompt =
  id_prompt :: string
  name_prompt :: string
  description_prompt :: string
  prompt :: string
  is_builtin :: bool

record DefaultApp =
  id_app :: string
  name_app :: string
  defaultStyle :: string

definition DEFAULT_APPS :: "DefaultApp list" where
  "DEFAULT_APPS =
    [\<lparr>id_app = ''gmail'', name_app = ''Gmail'', defaultStyle = ''email_pro''\<rparr>,
     \<lparr>id_app = ''outlook'', name_app = ''Outlook'', defaultStyle = ''email_pro''\<rparr>,
     \<lparr>id_app = ''outlook_web'', name_app = ''Outlook Web'', defaultStyle = ''email_pro''\<rparr>,
     \<lparr>id_app = ''apple_mail'', name_app = ''Apple Mail'', defaultStyle = ''email_pro''\<rparr>,
     \<lparr>id_app = ''slack'', name_app = ''Slack'', defaultStyle = ''chat''\<rparr>,
     \<lparr>id_app = ''slack_web'', name_app = ''Slack Web'', defaultStyle = ''chat''\<rparr>,
     \<lparr>id_app = ''discord'', name_app = ''Discord'', defaultStyle = ''chat''\<rparr>,
     \<lparr>id_app = ''discord_web'', name_app = ''Discord Web'', defaultStyle = ''chat''\<rparr>,
     \<lparr>id_app = ''whatsapp'', name_app = ''WhatsApp'', defaultStyle = ''chat''\<rparr>,
     \<lparr>id_app = ''whatsapp_web'', name_app = ''WhatsApp Web'', defaultStyle = ''chat''\<rparr>,
     \<lparr>id_app = ''telegram'', name_app = ''Telegram'', defaultStyle = ''chat''\<rparr>,
     \<lparr>id_app = ''telegram_web'', name_app = ''Telegram Web'', defaultStyle = ''chat''\<rparr>,
     \<lparr>id_app = ''imessage'', name_app = ''iMessage'', defaultStyle = ''chat''\<rparr>,
     \<lparr>id_app = ''vscode'', name_app = ''VS Code'', defaultStyle = ''code''\<rparr>,
     \<lparr>id_app = ''cursor'', name_app = ''Cursor'', defaultStyle = ''code''\<rparr>,
     \<lparr>id_app = ''notion'', name_app = ''Notion'', defaultStyle = ''notes''\<rparr>,
     \<lparr>id_app = ''notion_web'', name_app = ''Notion Web'', defaultStyle = ''notes''\<rparr>,
     \<lparr>id_app = ''obsidian'', name_app = ''Obsidian'', defaultStyle = ''notes''\<rparr>,
     \<lparr>id_app = ''chatgpt'', name_app = ''ChatGPT'', defaultStyle = ''ai_assistant''\<rparr>,
     \<lparr>id_app = ''claude'', name_app = ''Claude'', defaultStyle = ''ai_assistant''\<rparr>,
     \<lparr>id_app = ''linkedin'', name_app = ''LinkedIn'', defaultStyle = ''social_pro''\<rparr>,
     \<lparr>id_app = ''twitter'', name_app = ''Twitter/X'', defaultStyle = ''social_casual''\<rparr>,
     \<lparr>id_app = ''github'', name_app = ''GitHub'', defaultStyle = ''dev_tools''\<rparr>,
     \<lparr>id_app = ''linear'', name_app = ''Linear'', defaultStyle = ''dev_tools''\<rparr>,
     \<lparr>id_app = ''linear_web'', name_app = ''Linear Web'', defaultStyle = ''dev_tools''\<rparr>]"

text \<open>The React state of the component: the loaded mapping table, the loaded style
  prompts and the loading flag.\<close>

record mappings_list =
  mappings :: "ContextMapping list"
  prompts :: "ContextStylePrompt list"
  isLoading :: bool

text \<open>After mounting and before \<^verbatim>\<open>loadData\<close> has answered.\<close>

definition mappings_list_init :: mappings_list where
  "mappings_list_init = \<lparr>mappings = [], prompts = [], isLoading = True\<rparr>"

text \<open>
  \<^verbatim>\<open>loadData\<close>: both queries are issued together (\<^verbatim>\<open>Promise.all\<close>); a rejection of either
  skips both updates; otherwise each list is replaced only when its own result is ok.
  \<^verbatim>\<open>finally\<close> clears the loading flag on every path.
\<close>

definition loadData ::
  "mappings_list \<Rightarrow> ContextMapping list response \<Rightarrow> ContextStylePrompt list response
    \<Rightarrow> command list \<times> mappings_list" where
  "loadData st mappingsResult promptsResult =
    ([GetContextMappings, GetContextStylePrompts],
     (if mappingsResult = Throws \<or> promptsResult = Throws then st\<lparr>isLoading := False\<rparr>
      else
        let st1 = (case mappingsResult of StatusOk d \<Rightarrow> st\<lparr>mappings := d\<rparr> | _ \<Rightarrow> st);
            st2 = (case promptsResult of StatusOk d \<Rightarrow> st1\<lparr>prompts := d\<rparr> | _ \<Rightarrow> st1)
        in st2\<lparr>isLoading := False\<rparr>))"

text \<open>
  \<^verbatim>\<open>getStyleForApp\<close>: the first mapping whose \<^verbatim>\<open>app_id\<close> equals the argument wins (a found
  object is always truthy, whatever its style); else the first \<^verbatim>\<open>DEFAULT_APPS\<close> entry with
  that id gives its \<^verbatim>\<open>defaultStyle\<close>, unless that is missing or the empty string
  (\<^verbatim>\<open>defaultApp?.defaultStyle || "correction"\<close>).
\<close>

definition getStyleForApp :: "mappings_list \<Rightarrow> string \<Rightarrow> string" where
  "getStyleForApp st appId =
    (case find (\<lambda>m. app_id m = appId) (mappings st) of
       Some mapping \<Rightarrow> context_style mapping
     | None \<Rightarrow>
        (case find (\<lambda>a. id_app a = appId) DEFAULT_APPS of
           None \<Rightarrow> ''correction''
         | Some defaultApp \<Rightarrow>
             if defaultStyle defaultApp = [] then ''correction'' else defaultStyle defaultApp))"

text \<open>
  \<^verbatim>\<open>isCustomMapping\<close>: \<^verbatim>\<open>defaultApp?.defaultStyle !== currentStyle\<close>. The left side is
  \<^verbatim>\<open>undefined\<close> (here \<open>None\<close>) when the id is not in \<^verbatim>\<open>DEFAULT_APPS\<close>, and \<^verbatim>\<open>undefined\<close>
  is strictly unequal to every string.
\<close>

definition isCustomMapping :: "mappings_list \<Rightarrow> string \<Rightarrow> bool" where
  "isCustomMapping st appId =
    (let defaultApp = find (\<lambda>a. id_app a = appId) DEFAULT_APPS;
         currentStyle = getStyleForApp st appId
     in map_option defaultStyle defaultApp \<noteq> Some currentStyle)"

text \<open>\<^verbatim>\<open>handleStyleChange\<close> and \<^verbatim>\<open>handleResetMapping\<close>: one host call, and a reload only
  when its result is ok; an error result or a rejection leaves the state as it is.\<close>

definition handleStyleChange ::
  "mappings_list \<Rightarrow> string \<Rightarrow> string \<Rightarrow> unit response
    \<Rightarrow> ContextMapping list response \<Rightarrow> ContextStylePrompt list response
    \<Rightarrow> command list \<times> mappings_list" where
  "handleStyleChange st appId newStyle result mappingsResult promptsResult =
    (case result of
       StatusOk _ \<Rightarrow>
         (let (cs, st') = loadData st mappingsResult promptsResult
          in (UpdateContextMapping appId newStyle # cs, st'))
     | _ \<Rightarrow> ([UpdateContextMapping appId newStyle], st))"

definition handleResetMapping ::
  "mappings_list \<Rightarrow> string \<Rightarrow> unit response
    \<Rightarrow> ContextMapping list response \<Rightarrow> ContextStylePrompt list response
    \<Rightarrow> command list \<times> mappings_list" where
  "handleResetMapping st appId result mappingsResult promptsResult =
    (case result of
       StatusOk _ \<Rightarrow>
         (let (cs, st') = loadData st mappingsResult promptsResult
          in (DeleteContextMapping appId # cs, st'))
     | _ \<Rightarrow> ([DeleteContextMapping appId], st))"

text \<open>
  The rows the component renders. \<^verbatim>\<open>isCustomMapping\<close> has a single call site, inside
  \<^verbatim>\<open>category.apps.map\<close> and behind \<^verbatim>\<open>if (!app) return null\<close>: it is evaluated for the app
  ids of the categories that are found in \<^verbatim>\<open>DEFAULT_APPS\<close>, and for no other id. A category
  is its key and its app ids (the label is a translated text).
\<close>

definition categories :: "(string \<times> string list) list" where
  "categories =
    [(''email'', [''gmail'', ''outlook'', ''outlook_web'', ''apple_mail'']),
     (''chat'', [''slack'', ''slack_web'', ''discord'', ''discord_web'', ''whatsapp'',
                 ''whatsapp_web'', ''telegram'', ''telegram_web'', ''imessage'']),
     (''code'', [''vscode'', ''cursor'']),
     (''notes'', [''notion'', ''notion_web'', ''obsidian'']),
     (''ai'', [''chatgpt'', ''claude'']),
     (''social'', [''linkedin'', ''twitter'']),
     (''dev'', [''github'', ''linear'', ''linear_web''])]"

definition rendered_apps :: "string list" where
  "rendered_apps =
    filter (\<lambda>appId. find (\<lambda>a. id_app a = appId) DEFAULT_APPS \<noteq> None)
      (concat (map snd categories))"

text \<open>A table that overrides the factory default of \<^verbatim>\<open>gmail\<close>.\<close>

definition st_gmail_chat :: mappings_list where
  "st_gmail_chat =
    \<lparr>mappings = [\<lparr>app_id = ''gmail'', context_style = ''chat''\<rparr>], prompts = [],
     isLoading = False\<rparr>"


section \<open>Strings as JavaScript sees them\<close>

text \<open>
  A \<open>char\<close> is read as a code unit below 256. \<^verbatim>\<open>String.prototype.trim\<close> removes white
  space and line terminators from both ends; in this range they are tab, line feed,
  vertical tab, form feed, carriage return, space and no-break space. A string is falsy
  exactly when it is empty.
\<close>

definition is_space :: "char \<Rightarrow> bool" where
  "is_space c \<longleftrightarrow>
     c = CHR 0x09 \<or> c = CHR 0x0A \<or> c = CHR 0x0B \<or> c = CHR 0x0C \<or> c = CHR 0x0D
     \<or> c = CHR 0x20 \<or> c = CHR 0xA0"

definition trim :: "string \<Rightarrow> string" where
  "trim s = rev (dropWhile is_space (rev (dropWhile is_space s)))"

text \<open>\<^verbatim>\<open>s || null\<close>\<close>

definition or_null :: "string \<Rightarrow> string option" where
  "or_null s = (if s = [] then None else Some s)"

text \<open>Truthiness of a value that is \<^verbatim>\<open>null\<close>/\<^verbatim>\<open>undefined\<close> or a string.\<close>

definition truthy :: "string option \<Rightarrow> bool" where
  "truthy v = (case v of None \<Rightarrow> False | Some s \<Rightarrow> s \<noteq> [])"

section \<open>Cloud speech-to-text settings (CloudSTTSettings, ApiKeyInput)\<close>

record CloudSTTProvider =
  id_provider :: string
  label :: string
  description_provider :: string
  api_key_url :: string
  default_model :: string
  models :: "(string \<times> string) list"

record CloudSTTConfig =
  enabled :: bool
  active_provider :: "string option"
  api_keys :: "string \<rightharpoonup> string"
  selected_models :: "string \<rightharpoonup> string"

text \<open>The React state of \<^verbatim>\<open>CloudSTTSettings\<close>; \<open>config\<close> is \<^verbatim>\<open>null\<close> until loaded.\<close>

record cloud_settings =
  providers :: "CloudSTTProvider list"
  config :: "CloudSTTConfig option"
  isLoading_cloud :: bool

text \<open>
  The three setters await their host command and then update the local copy of the
  configuration with a spread: every other field and every other key is copied. The
  result object's status is not inspected; only a rejection (the \<^verbatim>\<open>catch\<close>) skips the
  local update. \<^verbatim>\<open>setConfig((prev) => prev ? {...} : null)\<close> keeps \<^verbatim>\<open>null\<close>.
\<close>

definition handleProviderSelect ::
  "cloud_settings \<Rightarrow> string \<Rightarrow> unit response \<Rightarrow> command list \<times> cloud_settings" where
  "handleProviderSelect st providerId result =
    ([SetCloudSttProvider providerId],
     (if result = Throws then st
      else st\<lparr>config :=
        map_option (\<lambda>prev. prev\<lparr>active_provider := Some providerId\<rparr>) (config st)\<rparr>))"

definition handleApiKeyChange ::
  "cloud_settings \<Rightarrow> string \<Rightarrow> string \<Rightarrow> unit response \<Rightarrow> command list \<times> cloud_settings" where
  "handleApiKeyChange st providerId apiKey result =
    ([SetCloudSttApiKey providerId apiKey],
     (if result = Throws then st
      else st\<lparr>config :=
        map_option (\<lambda>prev. prev\<lparr>api_keys := (api_keys prev)(providerId \<mapsto> apiKey)\<rparr>)
          (config st)\<rparr>))"

definition handleModelChange ::
  "cloud_settings \<Rightarrow> string \<Rightarrow> string \<Rightarrow> unit response \<Rightarrow> command list \<times> cloud_settings" where
  "handleModelChange st providerId modelId result =
    ([SetCloudSttModel providerId modelId],
     (if result = Throws then st
      else st\<lparr>config :=
        map_option
          (\<lambda>prev. prev\<lparr>selected_models := (selected_models prev)(providerId \<mapsto> modelId)\<rparr>)
          (config st)\<rparr>))"

text \<open>
  \<^verbatim>\<open>handleTestConnection\<close> reads the key from the configuration it closes over and
  returns a boolean; it has no state update at all. No key (or an empty one) gives
  \<^verbatim>\<open>false\<close> without a host call; an error result or a rejection gives \<^verbatim>\<open>false\<close>.
\<close>

definition handleTestConnection ::
  "cloud_settings \<Rightarrow> string \<Rightarrow> bool response \<Rightarrow> command list \<times> bool" where
  "handleTestConnection st providerId result =
    (case config st of
       None \<Rightarrow> ([], False)
     | Some c \<Rightarrow>
        (case api_keys c providerId of
           None \<Rightarrow> ([], False)
         | Some apiKey \<Rightarrow>
             if apiKey = [] then ([], False)
             else ([TestCloudSttConnection providerId apiKey], result = StatusOk True)))"

text \<open>The \<^verbatim>\<open>value\<close> prop handed to \<^verbatim>\<open>ApiKeyInput\<close>: \<^verbatim>\<open>config.api_keys[id] || ""\<close>.\<close>

definition value_prop :: "cloud_settings \<Rightarrow> string \<Rightarrow> string" where
  "value_prop st providerId =
    (case config st of
       None \<Rightarrow> []
     | Some c \<Rightarrow> (case api_keys c providerId of None \<Rightarrow> [] | Some k \<Rightarrow> k))"

text \<open>
  \<^verbatim>\<open>ApiKeyInput.handleBlur\<close> and \<^verbatim>\<open>ApiKeyInput.handleTest\<close>, with the props wired as
  \<^verbatim>\<open>CloudSTTSettings\<close> wires them for the selected provider: \<^verbatim>\<open>onChange\<close> is
  \<^verbatim>\<open>handleApiKeyChange\<close> and \<^verbatim>\<open>onTest\<close> is \<^verbatim>\<open>handleTestConnection\<close>.
  \<open>localValue\<close> is the text in the input field.
  \<^verbatim>\<open>handleTest\<close> does not await \<^verbatim>\<open>onChange\<close>, so \<^verbatim>\<open>onTest\<close> runs with the configuration of
  the render the click happened in, \<open>st\<close>, not with the updated one.
  The third component is what \<^verbatim>\<open>handleTest\<close> passes to \<^verbatim>\<open>setTestResult\<close>, \<open>None\<close> when it
  returns before testing; the spinner flag of the input is not part of the model.
\<close>

definition handleBlur ::
  "cloud_settings \<Rightarrow> string \<Rightarrow> string \<Rightarrow> unit response \<Rightarrow> command list \<times> cloud_settings" where
  "handleBlur st providerId localValue setResult =
    (if localValue \<noteq> value_prop st providerId
     then handleApiKeyChange st providerId localValue setResult
     else ([], st))"

definition handleTest ::
  "cloud_settings \<Rightarrow> string \<Rightarrow> string \<Rightarrow> unit response \<Rightarrow> bool response
    \<Rightarrow> command list \<times> cloud_settings \<times> bool option" where
  "handleTest st providerId localValue setResult testResult =
    (if trim localValue = [] then ([], st, None)
     else
       let (cs1, st1) =
             (if localValue \<noteq> value_prop st providerId
              then handleApiKeyChange st providerId localValue setResult
              else ([], st));
           (cs2, result) = handleTestConnection st providerId testResult
       in (cs1 @ cs2, st1, Some result))"

text \<open>Reading one provider's entries out of the component's configuration.\<close>

definition api_key_of :: "cloud_settings \<Rightarrow> string \<Rightarrow> string option" where
  "api_key_of st q = (case config st of None \<Rightarrow> None | Some c \<Rightarrow> api_keys c q)"

definition selected_model_of :: "cloud_settings \<Rightarrow> string \<Rightarrow> string option" where
  "selected_model_of st q = (case config st of None \<Rightarrow> None | Some c \<Rightarrow> selected_models c q)"

text \<open>A loaded configuration with no keys, and one where \<^verbatim>\<open>gemini\<close> has the key \<^verbatim>\<open>k1\<close>.\<close>

definition cloud_empty :: cloud_settings where
  "cloud_empty =
    \<lparr>providers = [],
     config = Some \<lparr>enabled = True, active_provider = Some ''gemini'',
                    api_keys = Map.empty, selected_models = Map.empty\<rparr>,
     isLoading_cloud = False\<rparr>"

definition cloud_k1 :: cloud_settings where
  "cloud_k1 =
    \<lparr>providers = [],
     config = Some \<lparr>enabled = True, active_provider = Some ''gemini'',
                    api_keys = [''gemini'' \<mapsto> ''k1''], selected_models = Map.empty\<rparr>,
     isLoading_cloud = False\<rparr>"

section \<open>Style prompt editor (ContextPromptEditor)\<close>

record prompt_editor =
  prompts_editor :: "ContextStylePrompt list"
  selectedPromptId :: "string option"
  isLoading_editor :: bool
  draftName :: string
  draftDescription :: string
  draftPrompt :: string
  isSaving :: bool

definition prompt_editor_init :: prompt_editor where
  "prompt_editor_init =
    \<lparr>prompts_editor = [], selectedPromptId = None, isLoading_editor = True,
     draftName = [], draftDescription = [], draftPrompt = [], isSaving = False\<rparr>"

text \<open>\<^verbatim>\<open>prompts.find((p) => p.id === selectedPromptId)\<close>; \<^verbatim>\<open>null\<close> equals no id.\<close>

definition selectedPrompt :: "prompt_editor \<Rightarrow> ContextStylePrompt option" where
  "selectedPrompt st = find (\<lambda>p. Some (id_prompt p) = selectedPromptId st) (prompts_editor st)"

text \<open>The effect on \<^verbatim>\<open>[selectedPromptId, prompts]\<close>: the drafts are overwritten with the
  selected prompt's fields when there is one.\<close>

definition draftEffect :: "prompt_editor \<Rightarrow> prompt_editor" where
  "draftEffect st =
    (case selectedPrompt st of
       None \<Rightarrow> st
     | Some selected \<Rightarrow>
         st\<lparr>draftName := name_prompt selected,
            draftDescription := description_prompt selected,
            draftPrompt := prompt selected\<rparr>)"

text \<open>
  \<^verbatim>\<open>loadPrompts\<close>: on an ok result the list is replaced, the first prompt is selected when
  nothing is selected yet, and the effect above runs since the list is a new array. An
  error result or a rejection changes only the loading flag.
\<close>

definition loadPrompts ::
  "prompt_editor \<Rightarrow> ContextStylePrompt list response \<Rightarrow> command list \<times> prompt_editor" where
  "loadPrompts st result =
    ([GetContextStylePrompts],
     (case result of
        StatusOk d \<Rightarrow>
          draftEffect
            (st\<lparr>prompts_editor := d,
                selectedPromptId :=
                  (if \<not> truthy (selectedPromptId st) \<and> d \<noteq> []
                   then Some (id_prompt (hd d)) else selectedPromptId st),
                isLoading_editor := False\<rparr>)
      | _ \<Rightarrow> st\<lparr>isLoading_editor := False\<rparr>))"

text \<open>\<^verbatim>\<open>isDirty\<close>: \<^verbatim>\<open>selectedPrompt && (... !== ... || ...)\<close>, falsy without a selected prompt.\<close>

definition isDirty :: "prompt_editor \<Rightarrow> bool" where
  "isDirty st =
    (case selectedPrompt st of
       None \<Rightarrow> False
     | Some sp \<Rightarrow>
         draftName st \<noteq> name_prompt sp
         \<or> draftDescription st \<noteq> description_prompt sp
         \<or> draftPrompt st \<noteq> prompt sp)"

text \<open>
  \<^verbatim>\<open>handleSave\<close>: returns at once unless a prompt id is selected and the draft is dirty.
  Otherwise the update command carries each trimmed field, or \<^verbatim>\<open>null\<close> for a field that
  is empty after trimming; the store is reloaded only when the result is ok.
  \<^verbatim>\<open>isSaving\<close> is set while the call runs and cleared in \<^verbatim>\<open>finally\<close>.
\<close>

definition handleSave ::
  "prompt_editor \<Rightarrow> unit response \<Rightarrow> ContextStylePrompt list response
    \<Rightarrow> command list \<times> prompt_editor" where
  "handleSave st result loadResult =
    (case selectedPromptId st of
       None \<Rightarrow> ([], st)
     | Some pid \<Rightarrow>
        if pid = [] \<or> \<not> isDirty st then ([], st)
        else
          let cmd = UpdateContextStylePrompt pid
                      (or_null (trim (draftName st)))
                      (or_null (trim (draftDescription st)))
                      (or_null (trim (draftPrompt st)))
          in (case result of
                StatusOk _ \<Rightarrow>
                  (let (cs, st') = loadPrompts (st\<lparr>isSaving := True\<rparr>) loadResult
                   in (cmd # cs, st'\<lparr>isSaving := False\<rparr>))
              | _ \<Rightarrow> ([cmd], st\<lparr>isSaving := False\<rparr>)))"

definition handleReset ::
  "prompt_editor \<Rightarrow> unit response \<Rightarrow> ContextStylePrompt list response
    \<Rightarrow> command list \<times> prompt_editor" where
  "handleReset st result loadResult =
    (case selectedPromptId st of
       None \<Rightarrow> ([], st)
     | Some pid \<Rightarrow>
        if pid = [] then ([], st)
        else
          (case result of
             StatusOk _ \<Rightarrow>
               (let (cs, st') = loadPrompts (st\<lparr>isSaving := True\<rparr>) loadResult
                in (ResetContextStylePrompt pid # cs, st'\<lparr>isSaving := False\<rparr>))
           | _ \<Rightarrow> ([ResetContextStylePrompt pid], st\<lparr>isSaving := False\<rparr>)))"

text \<open>An editor with the builtin \<^verbatim>\<open>chat\<close> prompt loaded and selected, and all three
  draft fields cleared by the user.\<close>

definition chat_prompt :: ContextStylePrompt where
  "chat_prompt =
    \<lparr>id_prompt = ''chat'', name_prompt = ''Chat'', description_prompt = ''Casual messages'',
     prompt = ''Rewrite as a chat message'', is_builtin = True\<rparr>"

definition editor_cleared :: prompt_editor where
  "editor_cleared =
    \<lparr>prompts_editor = [chat_prompt], selectedPromptId = Some ''chat'',
     isLoading_editor = False, draftName = [], draftDescription = [], draftPrompt = [],
     isSaving = False\<rparr>"

text \<open>The same editor with only the name edited.\<close>

definition editor_renamed :: prompt_editor where
  "editor_renamed =
    \<lparr>prompts_editor = [chat_prompt], selectedPromptId = Some ''chat'',
     isLoading_editor = False, draftName = ''Chatty'',
     draftDescription = ''Casual messages'', draftPrompt = ''Rewrite as a chat message'',
     isSaving = False\<rparr>"

section \<open>Browser extension bridge client (background script)\<close>

datatype readyState = CONNECTING | OPEN | CLOSING | CLOSED

record socket =
  port :: nat
  readyState :: readyState

text \<open>
  What \<^verbatim>\<open>detectApp\<close> can return: \<^verbatim>\<open>null\<close>, an app id of its table, or, since the table
  is an object literal indexed with the host name, the member of \<^verbatim>\<open>Object.prototype\<close> of
  that name (a function, or the prototype object itself for \<^verbatim>\<open>__proto__\<close>).
\<close>

datatype app_value = AppNull | AppId string | Inherited string

text \<open>The object handed to \<^verbatim>\<open>sendContext\<close>, which serialises it and sends it to the desktop
  application.\<close>

record browser_context =
  browser :: string
  url :: string
  domain :: string
  page_title :: string
  detected_app :: app_value

text \<open>
  What \<^verbatim>\<open>chrome.tabs.query\<close> reports about a tab: \<^verbatim>\<open>url\<close> and \<^verbatim>\<open>title\<close> may be absent.
  \<open>tab_hostname\<close> stands for the platform's URL parser: it is
  \<^verbatim>\<open>new URL(tab.url).hostname\<close>, or \<open>None\<close> when the constructor throws.
\<close>

record tab =
  tab_url :: "string option"
  tab_title :: "string option"
  tab_hostname :: "string option"

text \<open>
  The module-level variables \<^verbatim>\<open>ws\<close> and \<^verbatim>\<open>reconnectInterval\<close>, and the part of the
  platform they refer to: every \<^verbatim>\<open>WebSocket\<close> object created so far (\<^verbatim>\<open>ws\<close> holds an index
  into this list), the interval timers that are active, each with its id and its period
  in milliseconds, the next timer id, the number of \<^verbatim>\<open>sendCurrentContext\<close> calls waiting
  for \<^verbatim>\<open>chrome.tabs.query\<close>, and the messages passed to \<^verbatim>\<open>send\<close> with the socket they
  were passed to.
\<close>

record client =
  ws :: "nat option"
  reconnectInterval :: "nat option"
  sockets :: "socket list"
  timers :: "(nat \<times> nat) list"
  next_timer :: nat
  pending_queries :: nat
  sent :: "(nat \<times> browser_context) list"

definition WS_PORT :: nat where
  "WS_PORT = 9876"

text \<open>\<^verbatim>\<open>ws && ws.readyState === WebSocket.OPEN\<close>\<close>

definition ws_open :: "client \<Rightarrow> bool" where
  "ws_open c =
    (case ws c of
       None \<Rightarrow> False
     | Some i \<Rightarrow> i < length (sockets c) \<and> readyState (sockets c ! i) = OPEN)"

text \<open>\<^verbatim>\<open>connect\<close>: nothing when the handle is an open socket; otherwise a new socket is
  created and stored in \<^verbatim>\<open>ws\<close>, whatever the previous handle was.\<close>

definition connect :: "client \<Rightarrow> client" where
  "connect c =
    (if ws_open c then c
     else c\<lparr>ws := Some (length (sockets c)),
            sockets := sockets c @ [\<lparr>port = WS_PORT, readyState = CONNECTING\<rparr>]\<rparr>)"

text \<open>\<^verbatim>\<open>setInterval\<close> returns a fresh id; \<^verbatim>\<open>clearInterval\<close> removes the timer with that id.\<close>

definition setInterval :: "client \<Rightarrow> nat \<Rightarrow> nat \<times> client" where
  "setInterval c period =
    (next_timer c,
     c\<lparr>timers := timers c @ [(next_timer c, period)], next_timer := Suc (next_timer c)\<rparr>)"

definition clearInterval :: "client \<Rightarrow> nat \<Rightarrow> client" where
  "clearInterval c t = c\<lparr>timers := filter (\<lambda>x. fst x \<noteq> t) (timers c)\<rparr>"

text \<open>Truthiness of \<^verbatim>\<open>reconnectInterval\<close>: \<^verbatim>\<open>null\<close> and the number 0 are falsy.\<close>

definition timer_set :: "nat option \<Rightarrow> bool" where
  "timer_set r = (case r of None \<Rightarrow> False | Some t \<Rightarrow> t \<noteq> 0)"

text \<open>
  The property names of \<^verbatim>\<open>Object.prototype\<close>. Looking one of them up in an object literal
  that has no own property of that name yields the inherited member, which is truthy.
\<close>

definition object_prototype_keys :: "string list" where
  "object_prototype_keys =
    [''constructor'', ''__defineGetter__'', ''__defineSetter__'', ''hasOwnProperty'',
     ''__lookupGetter__'', ''__lookupSetter__'', ''isPrototypeOf'', ''propertyIsEnumerable'',
     ''toString'', ''valueOf'', ''__proto__'', ''toLocaleString'']"

text \<open>\<^verbatim>\<open>detectApp\<close>: \<^verbatim>\<open>mappings[domain] || null\<close> on the object literal of the source.\<close>

definition detectApp :: "string \<Rightarrow> app_value" where
  "detectApp d =
    (case map_of
      [(''mail.google.com'', ''gmail''),
       (''outlook.office.com'', ''outlook_web''),
       (''outlook.live.com'', ''outlook_web''),
       (''outlook.office365.com'', ''outlook_web''),
       (''app.slack.com'', ''slack_web''),
       (''discord.com'', ''discord_web''),
       (''web.whatsapp.com'', ''whatsapp_web''),
       (''web.telegram.org'', ''telegram_web''),
       (''chat.openai.com'', ''chatgpt''),
       (''chatgpt.com'', ''chatgpt''),
       (''claude.ai'', ''claude''),
       (''notion.so'', ''notion_web''),
       (''www.notion.so'', ''notion_web''),
       (''www.linkedin.com'', ''linkedin''),
       (''linkedin.com'', ''linkedin''),
       (''twitter.com'', ''twitter''),
       (''x.com'', ''twitter''),
       (''github.com'', ''github''),
       (''www.github.com'', ''github''),
       (''linear.app'', ''linear_web''),
       (''teams.microsoft.com'', ''teams_web'')] d of
       Some a \<Rightarrow> if a = [] then AppNull else AppId a
     | None \<Rightarrow> if d \<in> set object_prototype_keys then Inherited d else AppNull)"

text \<open>\<^verbatim>\<open>sendContext\<close>: the message goes to the socket \<^verbatim>\<open>ws\<close> points to, if that is open.\<close>

definition sendContext :: "client \<Rightarrow> browser_context \<Rightarrow> client" where
  "sendContext c ctx =
    (case ws c of
       None \<Rightarrow> c
     | Some i \<Rightarrow>
         if i < length (sockets c) \<and> readyState (sockets c ! i) = OPEN
         then c\<lparr>sent := sent c @ [(i, ctx)]\<rparr> else c)"

text \<open>
  \<^verbatim>\<open>sendCurrentContext\<close> is asynchronous. Up to its \<^verbatim>\<open>await\<close> it only starts the tab query;
  \<open>sendCurrentContext_resume\<close> is the rest of its body, run when the query answers with
  a list of tabs. Without a first tab, without a non-empty url, or when the URL parser
  throws (the \<^verbatim>\<open>catch\<close>), nothing is sent.
\<close>

definition sendCurrentContext :: "client \<Rightarrow> client" where
  "sendCurrentContext c = c\<lparr>pending_queries := Suc (pending_queries c)\<rparr>"

definition sendCurrentContext_resume :: "client \<Rightarrow> tab list \<Rightarrow> client" where
  "sendCurrentContext_resume c tabs =
    (let c' = c\<lparr>pending_queries := pending_queries c - 1\<rparr>
     in case tabs of
          [] \<Rightarrow> c'
        | tab # _ \<Rightarrow>
           (case tab_url tab of
              None \<Rightarrow> c'
            | Some u \<Rightarrow>
               if u = [] then c'
               else
                 (case tab_hostname tab of
                    None \<Rightarrow> c'
                  | Some h \<Rightarrow>
                      sendContext c'
                        \<lparr>browser = ''chrome'', url = u, domain = h,
                         page_title = (case tab_title tab of None \<Rightarrow> [] | Some t \<Rightarrow> t),
                         detected_app = detectApp h\<rparr>)))"

text \<open>The three socket handlers. They are the same closures for every socket created by
  \<^verbatim>\<open>connect\<close> and act on the module-level variables only.\<close>

definition onopen :: "client \<Rightarrow> client" where
  "onopen c =
    sendCurrentContext
      (if timer_set (reconnectInterval c)
       then (clearInterval c (the (reconnectInterval c)))\<lparr>reconnectInterval := None\<rparr>
       else c)"

definition onclose :: "client \<Rightarrow> client" where
  "onclose c =
    (let c1 = c\<lparr>ws := None\<rparr>
     in if \<not> timer_set (reconnectInterval c1)
        then (let (t, c2) = setInterval c1 5000 in c2\<lparr>reconnectInterval := Some t\<rparr>)
        else c1)"

definition onerror :: "client \<Rightarrow> client" where
  "onerror c = c"

text \<open>
  The events the browser delivers to the script. A socket event names the socket object
  it belongs to; the browser has already changed that socket's \<^verbatim>\<open>readyState\<close> when the
  handler runs. An event is enabled only in the states where the browser can deliver
  it: a socket opens from \<^verbatim>\<open>CONNECTING\<close>, starts closing from \<^verbatim>\<open>CONNECTING\<close> or \<^verbatim>\<open>OPEN\<close>,
  closes unless already closed; a timer fires while it is active; a query answers while
  one is pending. \<open>TabUpdated complete active\<close> carries \<^verbatim>\<open>changeInfo.status === 'complete'\<close>
  and \<^verbatim>\<open>tab.active\<close>.
\<close>

datatype event =
    SocketOpen nat
  | SocketClosing nat
  | SocketClose nat
  | SocketError nat
  | TimerFired nat
  | TabActivated
  | TabUpdated bool bool
  | TabsQueryResolved "tab list"
  | TabsQueryRejected

definition set_readyState :: "client \<Rightarrow> nat \<Rightarrow> readyState \<Rightarrow> client" where
  "set_readyState c i r = c\<lparr>sockets := (sockets c)[i := (sockets c ! i)\<lparr>readyState := r\<rparr>]\<rparr>"

fun step :: "client \<Rightarrow> event \<Rightarrow> client option" where
  "step c (SocketOpen i) =
    (if i < length (sockets c) \<and> readyState (sockets c ! i) = CONNECTING
     then Some (onopen (set_readyState c i OPEN)) else None)"
| "step c (SocketClosing i) =
    (if i < length (sockets c)
        \<and> (readyState (sockets c ! i) = CONNECTING \<or> readyState (sockets c ! i) = OPEN)
     then Some (set_readyState c i CLOSING) else None)"
| "step c (SocketClose i) =
    (if i < length (sockets c) \<and> readyState (sockets c ! i) \<noteq> CLOSED
     then Some (onclose (set_readyState c i CLOSED)) else None)"
| "step c (SocketError i) =
    (if i < length (sockets c) then Some (onerror c) else None)"
| "step c (TimerFired t) =
    (if t \<in> fst ` set (timers c) then Some (connect c) else None)"
| "step c TabActivated = Some (sendCurrentContext c)"
| "step c (TabUpdated complete active) =
    Some (if complete \<and> active then sendCurrentContext c else c)"
| "step c (TabsQueryResolved tabs) =
    (if 0 < pending_queries c then Some (sendCurrentContext_resume c tabs) else None)"
| "step c TabsQueryRejected =
    (if 0 < pending_queries c then Some (c\<lparr>pending_queries := pending_queries c - 1\<rparr>)
     else None)"

fun run :: "client \<Rightarrow> event list \<Rightarrow> client option" where
  "run c [] = Some c"
| "run c (e # es) = (case step c e of None \<Rightarrow> None | Some c' \<Rightarrow> run c' es)"

text \<open>Loading the script: both variables are \<^verbatim>\<open>null\<close>, the tab listeners are registered,
  and \<^verbatim>\<open>connect()\<close> is called once.\<close>

definition client_init :: client where
  "client_init =
    connect \<lparr>ws = None, reconnectInterval = None, sockets = [], timers = [],
             next_timer = 1, pending_queries = 0, sent = []\<rparr>"

inductive reachable :: "client \<Rightarrow> bool" where
  init: "reachable client_init"
| step: "reachable c \<Longrightarrow> step c e = Some c' \<Longrightarrow> reachable c'"

text \<open>The sockets that are open, by index.\<close>

definition open_sockets :: "client \<Rightarrow> nat list" where
  "open_sockets c = filter (\<lambda>i. readyState (sockets c ! i) = OPEN) [0..<length (sockets c)]"

text \<open>A tab showing a Gmail inbox.\<close>

definition gmail_tab :: tab where
  "gmail_tab =
    \<lparr>tab_url = Some ''https://mail.google.com/mail/u/0/'', tab_title = Some ''Inbox'',
     tab_hostname = Some ''mail.google.com''\<rparr>"

section \<open>Further example states, and the timer invariant\<close>

text \<open>A table with a mapping to a style id that is not in the loaded prompts.\<close>

definition st_dangling :: mappings_list where
  "st_dangling =
    \<lparr>mappings = [\<lparr>app_id = ''gmail'', context_style = ''deleted_style''\<rparr>],
     prompts = [chat_prompt], isLoading = False\<rparr>"

text \<open>
  The relation between the variable \<^verbatim>\<open>reconnectInterval\<close> and the active timers that the
  handlers maintain: the variable holds the id of the only active timer, whose period is
  5000 ms, or it is \<^verbatim>\<open>null\<close> and no timer is active; timer ids are positive.
\<close>

definition timer_inv :: "client \<Rightarrow> bool" where
  "timer_inv c \<longleftrightarrow>
     0 < next_timer c
     \<and> timers c = (case reconnectInterval c of None \<Rightarrow> [] | Some t \<Rightarrow> [(t, 5000)])
     \<and> (\<forall>t. reconnectInterval c = Some t \<longrightarrow> 0 < t \<and> t < next_timer c)"

text \<open>The client after the first socket was closed and the reconnect timer has fired
  once: a second socket is connecting and the timer is still active.\<close>

definition client_retrying :: client where
  "client_retrying =
    \<lparr>ws = Some 1, reconnectInterval = Some 1,
     sockets = [\<lparr>port = 9876, readyState = CLOSED\<rparr>, \<lparr>port = 9876, readyState = CONNECTING\<rparr>],
     timers = [(1, 5000)], next_timer = 2, pending_queries = 0, sent = []\<rparr>"

text \<open>The same client after that second socket has opened.\<close>

definition client_reconnected :: client where
  "client_reconnected =
    \<lparr>ws = Some 1, reconnectInterval = None,
     sockets = [\<lparr>port = 9876, readyState = CLOSED\<rparr>, \<lparr>port = 9876, readyState = OPEN\<rparr>],
     timers = [], next_timer = 2, pending_queries = 1, sent = []\<rparr>"

text \<open>A tab whose url the extension is not given.\<close>

definition blank_tab :: tab where
  "blank_tab = \<lparr>tab_url = None, tab_title = Some ''New Tab'', tab_hostname = None\<rparr>"

text \<open>The client right after its first socket has opened.\<close>

definition client_connected :: client where
  "client_connected =
    \<lparr>ws = Some 0, reconnectInterval = None,
     sockets = [\<lparr>port = 9876, readyState = OPEN\<rparr>], timers = [],
     next_timer = 1, pending_queries = 1, sent = []\<rparr>"

section \<open>Properties of the resolver\<close>

lemma DEFAULT_APPS_styles_nonempty: "\<forall>a \<in> set DEFAULT_APPS. defaultStyle a \<noteq> []"
  by (simp add: DEFAULT_APPS_def)

lemma find_DEFAULT_APPS_style:
  assumes "find P DEFAULT_APPS = Some a"
  shows "defaultStyle a \<noteq> []"
proof -
  from assms have "a \<in> set DEFAULT_APPS"
    by (auto simp: find_Some_iff in_set_conv_nth)
  with DEFAULT_APPS_styles_nonempty show ?thesis by blast
qed

lemma find_unique_key:
  assumes "distinct (map f xs)" and "x \<in> set xs"
  shows "find (\<lambda>y. f y = f x) xs = Some x"
  using assms by (induction xs) (auto simp: rev_image_eqI)

lemma find_None_key: "find (\<lambda>y. f y = k) xs = None \<longleftrightarrow> k \<notin> f ` set xs"
  by (auto simp: find_None_iff)

text \<open>
  C1. For every app id that has an entry in the loaded mapping table, \<^verbatim>\<open>getStyleForApp\<close>
  returns the style of a mapping for that id (the first one in the table), and never
  consults \<^verbatim>\<open>DEFAULT_APPS\<close>; when app ids are unique in the table, as the data model
  requires, it is the style of that very entry.
\<close>

theorem getStyleForApp_mapping_wins:
  assumes "m \<in> set (mappings st)" and "app_id m = appId"
  shows "\<exists>m' \<in> set (mappings st). app_id m' = appId
           \<and> getStyleForApp st appId = context_style m'
           \<and> (distinct (map app_id (mappings st)) \<longrightarrow> m' = m)"
proof -
  from assms have "find (\<lambda>x. app_id x = appId) (mappings st) \<noteq> None"
    by (auto simp: find_None_iff)
  then obtain m' where f: "find (\<lambda>x. app_id x = appId) (mappings st) = Some m'"
    by blast
  then have in_set: "m' \<in> set (mappings st)" and key: "app_id m' = appId"
    by (auto simp: find_Some_iff in_set_conv_nth)
  have style: "getStyleForApp st appId = context_style m'"
    using f by (simp add: getStyleForApp_def)
  have "m' = m" if "distinct (map app_id (mappings st))"
    using find_unique_key [OF that assms(1)] f assms(2) by simp
  with in_set key style show ?thesis by blast
qed

theorem getStyleForApp_mapping_wins_witness:
  "\<lparr>app_id = ''gmail'', context_style = ''chat''\<rparr> \<in> set (mappings st_gmail_chat)
   \<and> distinct (map app_id (mappings st_gmail_chat))
   \<and> map_option defaultStyle (find (\<lambda>a. id_app a = ''gmail'') DEFAULT_APPS) = Some ''email_pro''
   \<and> getStyleForApp st_gmail_chat ''gmail'' = ''chat''"
proof -
  let ?m = "\<lparr>app_id = ''gmail'', context_style = ''chat''\<rparr>"
  have h1: "?m \<in> set (mappings st_gmail_chat)"
    by (simp add: st_gmail_chat_def)
  have h2: "app_id ?m = ''gmail''" by simp
  have d: "distinct (map app_id (mappings st_gmail_chat))"
    by (simp add: st_gmail_chat_def)
  have f: "map_option defaultStyle (find (\<lambda>a. id_app a = ''gmail'') DEFAULT_APPS)
            = Some ''email_pro''"
    by (simp add: DEFAULT_APPS_def)
  from getStyleForApp_mapping_wins [OF h1 h2] d
  have "getStyleForApp st_gmail_chat ''gmail'' = context_style ?m" by auto
  with h1 d f show ?thesis by simp
qed

text \<open>
  C2. For every app id with no entry in the loaded mapping table and no entry in
  \<^verbatim>\<open>DEFAULT_APPS\<close>, \<^verbatim>\<open>getStyleForApp\<close> returns the generic fallback style id
  \<^verbatim>\<open>correction\<close>.
\<close>

theorem getStyleForApp_fallback:
  assumes "appId \<notin> app_id ` set (mappings st)" and "appId \<notin> id_app ` set DEFAULT_APPS"
  shows "getStyleForApp st appId = ''correction''"
proof -
  from assms(1) have "find (\<lambda>m. app_id m = appId) (mappings st) = None"
    by (simp add: find_None_key)
  moreover from assms(2) have "find (\<lambda>a. id_app a = appId) DEFAULT_APPS = None"
    by (simp add: find_None_key)
  ultimately show ?thesis by (simp add: getStyleForApp_def)
qed

theorem getStyleForApp_fallback_witness:
  "''teams_web'' \<notin> app_id ` set (mappings st_gmail_chat)
   \<and> ''teams_web'' \<notin> id_app ` set DEFAULT_APPS
   \<and> getStyleForApp st_gmail_chat ''teams_web'' = ''correction''"
proof -
  have h1: "''teams_web'' \<notin> app_id ` set (mappings st_gmail_chat)"
    by (simp add: st_gmail_chat_def)
  have h2: "''teams_web'' \<notin> id_app ` set DEFAULT_APPS"
    by (simp add: DEFAULT_APPS_def)
  from getStyleForApp_fallback [OF h1 h2] h1 h2 show ?thesis by simp
qed

text \<open>
  C3 as stated fails: a mapping to a style id that is not among the loaded prompts is
  resolved to that id, not to \<^verbatim>\<open>correction\<close>.
\<close>

theorem getStyleForApp_dangling_counterexample:
  "mappings st_dangling = [\<lparr>app_id = ''gmail'', context_style = ''deleted_style''\<rparr>]
   \<and> ''deleted_style'' \<notin> set (map id_prompt (prompts st_dangling))
   \<and> getStyleForApp st_dangling ''gmail'' = ''deleted_style''
   \<and> getStyleForApp st_dangling ''gmail'' \<noteq> ''correction''"
  by (simp add: st_dangling_def chat_prompt_def getStyleForApp_def)

text \<open>
  C3, amended. For every app id whose mapping points to a style id that is not present
  in the loaded prompts, \<^verbatim>\<open>getStyleForApp\<close> returns the mapping's style id unchanged:
  the result does not depend on the loaded prompts at all, and no error is raised.
\<close>

theorem getStyleForApp_ignores_style_store:
  assumes "find (\<lambda>x. app_id x = appId) (mappings st) = Some m"
      and "context_style m \<notin> id_prompt ` set (prompts st)"
  shows "getStyleForApp st appId = context_style m
         \<and> getStyleForApp (st\<lparr>prompts := ps\<rparr>) appId = getStyleForApp st appId"
  using assms(1) by (simp add: getStyleForApp_def)

theorem getStyleForApp_ignores_style_store_witness:
  "find (\<lambda>x. app_id x = ''gmail'') (mappings st_dangling)
     = Some \<lparr>app_id = ''gmail'', context_style = ''deleted_style''\<rparr>
   \<and> ''deleted_style'' \<notin> id_prompt ` set (prompts st_dangling)
   \<and> getStyleForApp st_dangling ''gmail'' = ''deleted_style''"
proof -
  have h1: "find (\<lambda>x. app_id x = ''gmail'') (mappings st_dangling)
     = Some \<lparr>app_id = ''gmail'', context_style = ''deleted_style''\<rparr>"
    by (simp add: st_dangling_def)
  have h2: "context_style \<lparr>app_id = ''gmail'', context_style = ''deleted_style''\<rparr>
     \<notin> id_prompt ` set (prompts st_dangling)"
    by (simp add: st_dangling_def chat_prompt_def)
  from getStyleForApp_ignores_style_store [OF h1 h2] h1 h2 show ?thesis by simp
qed

section \<open>Properties of the cloud settings\<close>

text \<open>
  C4 as stated fails: with the key \<^verbatim>\<open>k1\<close> configured for \<^verbatim>\<open>gemini\<close>, pressing the test button
  with \<^verbatim>\<open>k2\<close> in the input field issues \<^verbatim>\<open>setCloudSttApiKey("gemini", "k2")\<close> to the host
  and replaces the key in the component's configuration. (The connection test that
  follows is issued with the key of the current render, \<^verbatim>\<open>k1\<close>.)
\<close>

theorem handleTest_persists_counterexample:
  "value_prop cloud_k1 ''gemini'' = ''k1''
   \<and> fst (handleTest cloud_k1 ''gemini'' ''k2'' (StatusOk ()) (StatusOk True))
       = [SetCloudSttApiKey ''gemini'' ''k2'', TestCloudSttConnection ''gemini'' ''k1'']
   \<and> api_key_of cloud_k1 ''gemini'' = Some ''k1''
   \<and> api_key_of (fst (snd (handleTest cloud_k1 ''gemini'' ''k2'' (StatusOk ()) (StatusOk True))))
         ''gemini'' = Some ''k2''"
  by (simp add: handleTest_def handleApiKeyChange_def handleTestConnection_def value_prop_def
      api_key_of_def cloud_k1_def trim_def is_space_def)

lemma handleTestConnection_commands:
  "c \<in> set (fst (handleTestConnection st p t)) \<Longrightarrow> c = TestCloudSttConnection p (value_prop st p)"
  by (auto simp: handleTestConnection_def value_prop_def split: option.splits if_splits)

text \<open>
  C4, amended. \<^verbatim>\<open>handleTest\<close> leaves the configuration unchanged and issues no
  \<^verbatim>\<open>setCloudSttApiKey\<close> exactly when the entered key is blank or equals the configured key.
  With a non-blank entered key that differs from the configured one it first saves the
  entered key through \<^verbatim>\<open>handleApiKeyChange\<close> (one \<^verbatim>\<open>setCloudSttApiKey\<close> call for that
  provider, then the local update), and only then runs the connection test; the
  connection test itself, \<^verbatim>\<open>handleTestConnection\<close>, changes nothing.
\<close>

theorem handleTest_saves_changed_key:
  "(trim lv = [] \<or> lv = value_prop st p \<longrightarrow>
      fst (snd (handleTest st p lv r t)) = st
      \<and> (\<forall>q k. SetCloudSttApiKey q k \<notin> set (fst (handleTest st p lv r t))))
   \<and> (trim lv \<noteq> [] \<and> lv \<noteq> value_prop st p \<longrightarrow>
      fst (snd (handleTest st p lv r t)) = snd (handleApiKeyChange st p lv r)
      \<and> fst (handleTest st p lv r t)
          = SetCloudSttApiKey p lv # fst (handleTestConnection st p t)
      \<and> (r \<noteq> Throws \<and> config st \<noteq> None \<longrightarrow>
           api_key_of (fst (snd (handleTest st p lv r t))) p = Some lv))"
proof (intro conjI impI)
  assume a: "trim lv = [] \<or> lv = value_prop st p"
  then show "fst (snd (handleTest st p lv r t)) = st"
    by (auto simp: handleTest_def split: prod.splits)
  show "\<forall>q k. SetCloudSttApiKey q k \<notin> set (fst (handleTest st p lv r t))"
  proof (intro allI notI)
    fix q k
    assume "SetCloudSttApiKey q k \<in> set (fst (handleTest st p lv r t))"
    with a have "SetCloudSttApiKey q k \<in> set (fst (handleTestConnection st p t))"
      by (auto simp: handleTest_def split: prod.splits if_splits)
    from handleTestConnection_commands [OF this] show False by simp
  qed
next
  assume b: "trim lv \<noteq> [] \<and> lv \<noteq> value_prop st p"
  then show "fst (snd (handleTest st p lv r t)) = snd (handleApiKeyChange st p lv r)"
    by (simp add: handleTest_def split: prod.splits)
  from b show "fst (handleTest st p lv r t)
          = SetCloudSttApiKey p lv # fst (handleTestConnection st p t)"
    by (simp add: handleTest_def handleApiKeyChange_def split: prod.splits)
  assume "r \<noteq> Throws \<and> config st \<noteq> None"
  with b show "api_key_of (fst (snd (handleTest st p lv r t))) p = Some lv"
    by (auto simp: handleTest_def handleApiKeyChange_def api_key_of_def split: prod.splits)
qed

theorem handleTest_saves_changed_key_witness:
  "trim ''k2'' \<noteq> [] \<and> ''k2'' \<noteq> value_prop cloud_k1 ''gemini''
   \<and> fst (handleTest cloud_k1 ''gemini'' ''k2'' (StatusOk ()) (StatusOk True))
       = SetCloudSttApiKey ''gemini'' ''k2''
          # fst (handleTestConnection cloud_k1 ''gemini'' (StatusOk True))
   \<and> api_key_of (fst (snd (handleTest cloud_k1 ''gemini'' ''k2'' (StatusOk ()) (StatusOk True))))
        ''gemini'' = Some ''k2''
   \<and> ''k1'' = value_prop cloud_k1 ''gemini''
   \<and> fst (snd (handleTest cloud_k1 ''gemini'' ''k1'' (StatusOk ()) (StatusOk True))) = cloud_k1"
proof -
  have h1: "trim ''k2'' \<noteq> []"
    by (simp add: trim_def is_space_def)
  have h2: "''k2'' \<noteq> value_prop cloud_k1 ''gemini''"
    by (simp add: value_prop_def cloud_k1_def)
  have h3: "(StatusOk () :: unit response) \<noteq> Throws \<and> config cloud_k1 \<noteq> None"
    by (simp add: cloud_k1_def)
  have h4: "''k1'' = value_prop cloud_k1 ''gemini''"
    by (simp add: value_prop_def cloud_k1_def)
  from handleTest_saves_changed_key
         [of "''k2''" cloud_k1 "''gemini''" "StatusOk ()" "StatusOk True"]
       handleTest_saves_changed_key
         [of "''k1''" cloud_k1 "''gemini''" "StatusOk ()" "StatusOk True"]
       h1 h2 h3 h4
  show ?thesis by blast
qed

text \<open>
  C5. For distinct provider ids \<open>p\<close> and \<open>q\<close>, setting the API key or the selected
  model of \<open>p\<close> leaves \<open>api_keys[q]\<close> and \<open>selected_models[q]\<close> of the configuration
  as they were, and the only host command issued names \<open>p\<close>.
\<close>

theorem provider_config_isolation:
  assumes "p \<noteq> q"
  shows "api_key_of (snd (handleApiKeyChange st p k r)) q = api_key_of st q
       \<and> selected_model_of (snd (handleApiKeyChange st p k r)) q = selected_model_of st q
       \<and> selected_model_of (snd (handleModelChange st p m r)) q = selected_model_of st q
       \<and> api_key_of (snd (handleModelChange st p m r)) q = api_key_of st q
       \<and> fst (handleApiKeyChange st p k r) = [SetCloudSttApiKey p k]
       \<and> fst (handleModelChange st p m r) = [SetCloudSttModel p m]"
  using assms
  by (cases "config st")
     (simp_all add: handleApiKeyChange_def handleModelChange_def api_key_of_def
        selected_model_of_def)

theorem provider_config_isolation_witness:
  "''openai'' \<noteq> ''gemini''
   \<and> api_key_of (snd (handleApiKeyChange cloud_empty ''gemini'' ''k1'' (StatusOk ()))) ''gemini''
       = Some ''k1''
   \<and> api_key_of
        (snd (handleApiKeyChange
               (snd (handleApiKeyChange cloud_empty ''gemini'' ''k1'' (StatusOk ())))
               ''openai'' ''k2'' (StatusOk ())))
        ''gemini'' = Some ''k1''"
proof -
  have h: "''openai'' \<noteq> ''gemini''" by simp
  have k1: "api_key_of (snd (handleApiKeyChange cloud_empty ''gemini'' ''k1'' (StatusOk ())))
              ''gemini'' = Some ''k1''"
    by (simp add: handleApiKeyChange_def api_key_of_def cloud_empty_def)
  from provider_config_isolation
         [OF h, of "snd (handleApiKeyChange cloud_empty ''gemini'' ''k1'' (StatusOk ()))"
            "''k2''" "StatusOk ()"]
       h k1
  show ?thesis by simp
qed

section \<open>Properties of custom-mapping detection\<close>

lemma handleResetMapping_reloads:
  assumes "pr \<noteq> Throws"
  shows "mappings (snd (handleResetMapping st appId (StatusOk u) (StatusOk ms) pr)) = ms"
  using assms
  by (cases pr) (simp_all add: handleResetMapping_def loadData_def)

lemma rendered_apps_have_default:
  assumes "appId \<in> set rendered_apps"
  obtains a where "find (\<lambda>a. id_app a = appId) DEFAULT_APPS = Some a"
  using assms by (auto simp: rendered_apps_def)

lemma rendered_apps_ids: "set rendered_apps = id_app ` set DEFAULT_APPS"
  by (simp add: rendered_apps_def categories_def DEFAULT_APPS_def)

text \<open>
  C6. For every app id the component evaluates \<^verbatim>\<open>isCustomMapping\<close> for (the rendered
  ids, which are the ids of \<^verbatim>\<open>DEFAULT_APPS\<close>), the id has a factory default,
  \<^verbatim>\<open>isCustomMapping\<close> is true exactly when the resolved style differs from that default,
  and it is false after \<^verbatim>\<open>handleResetMapping\<close> has deleted the mapping and reloaded a
  table without an entry for the id.
\<close>

theorem isCustomMapping_derived:
  assumes "appId \<in> set rendered_apps"
  shows "\<exists>a. find (\<lambda>a. id_app a = appId) DEFAULT_APPS = Some a
     \<and> (isCustomMapping st appId \<longleftrightarrow> getStyleForApp st appId \<noteq> defaultStyle a)
     \<and> (appId \<notin> app_id ` set ms \<and> pr \<noteq> Throws \<longrightarrow>
          \<not> isCustomMapping
              (snd (handleResetMapping st appId (StatusOk ()) (StatusOk ms) pr)) appId)"
proof -
  from assms obtain a where a: "find (\<lambda>a. id_app a = appId) DEFAULT_APPS = Some a"
    by (rule rendered_apps_have_default)
  have iff: "isCustomMapping st appId \<longleftrightarrow> getStyleForApp st appId \<noteq> defaultStyle a"
    using a by (auto simp: isCustomMapping_def)
  have reset: "\<not> isCustomMapping
              (snd (handleResetMapping st appId (StatusOk ()) (StatusOk ms) pr)) appId"
    if h: "appId \<notin> app_id ` set ms \<and> pr \<noteq> Throws"
  proof -
    let ?st' = "snd (handleResetMapping st appId (StatusOk ()) (StatusOk ms) pr)"
    from h have "mappings ?st' = ms"
      by (simp add: handleResetMapping_reloads)
    with h have "find (\<lambda>m. app_id m = appId) (mappings ?st') = None"
      by (simp add: find_None_key)
    with a find_DEFAULT_APPS_style [OF a]
    have "getStyleForApp ?st' appId = defaultStyle a"
      by (simp add: getStyleForApp_def)
    with a show ?thesis
      by (simp add: isCustomMapping_def)
  qed
  from a iff reset show ?thesis by simp
qed

theorem isCustomMapping_derived_witness:
  "''gmail'' \<in> set rendered_apps
   \<and> find (\<lambda>a. id_app a = ''gmail'') DEFAULT_APPS
       = Some \<lparr>id_app = ''gmail'', name_app = ''Gmail'', defaultStyle = ''email_pro''\<rparr>
   \<and> getStyleForApp st_gmail_chat ''gmail'' = ''chat''
   \<and> isCustomMapping st_gmail_chat ''gmail''
   \<and> \<not> isCustomMapping
        (snd (handleResetMapping st_gmail_chat ''gmail'' (StatusOk ()) (StatusOk []) (StatusOk [])))
        ''gmail''"
proof -
  have h0: "''gmail'' \<in> set rendered_apps"
    by (simp add: rendered_apps_def categories_def DEFAULT_APPS_def)
  have h1: "find (\<lambda>a. id_app a = ''gmail'') DEFAULT_APPS
     = Some \<lparr>id_app = ''gmail'', name_app = ''Gmail'', defaultStyle = ''email_pro''\<rparr>"
    by (simp add: DEFAULT_APPS_def)
  have h2: "getStyleForApp st_gmail_chat ''gmail'' = ''chat''"
    by (simp add: getStyleForApp_def st_gmail_chat_def)
  have h4: "''gmail'' \<notin> app_id ` set []" by simp
  have h5: "(StatusOk [] :: ContextStylePrompt list response) \<noteq> Throws" by simp
  from isCustomMapping_derived [OF h0, of st_gmail_chat "[]" "StatusOk []"] h0 h1 h2 h4 h5
  show ?thesis by simp
qed

section \<open>Properties of the prompt editor\<close>

text \<open>
  C9 as stated fails in its second part: with all three draft fields empty and a
  non-empty stored prompt the draft is dirty, and \<^verbatim>\<open>handleSave\<close> issues the update
  command, with \<^verbatim>\<open>null\<close> for every field.
\<close>

theorem handleSave_empty_draft_counterexample:
  "isDirty editor_cleared
   \<and> draftName editor_cleared = [] \<and> draftDescription editor_cleared = []
   \<and> draftPrompt editor_cleared = []
   \<and> fst (handleSave editor_cleared (StatusOk ()) (StatusOk [chat_prompt]))
       = [UpdateContextStylePrompt ''chat'' None None None, GetContextStylePrompts]"
  by (simp add: handleSave_def isDirty_def selectedPrompt_def editor_cleared_def chat_prompt_def
      loadPrompts_def or_null_def trim_def)

text \<open>
  C9, amended. With a selected prompt the dirty flag is true exactly when the draft
  name, description or prompt differs from the loaded prompt, and it is false without
  one. \<^verbatim>\<open>handleSave\<close> issues a command only for a dirty draft of a selected prompt; it
  does not check for emptiness, but sends \<^verbatim>\<open>null\<close> for each field that is empty after
  trimming. A save whose result is ok is followed by \<^verbatim>\<open>getContextStylePrompts\<close>, and the
  loaded list replaces the editor's list.
\<close>

theorem prompt_editor_save:
  "(selectedPrompt st = Some sp \<longrightarrow>
      (isDirty st \<longleftrightarrow>
         draftName st \<noteq> name_prompt sp \<or> draftDescription st \<noteq> description_prompt sp
         \<or> draftPrompt st \<noteq> prompt sp))
   \<and> (selectedPrompt st = None \<longrightarrow> \<not> isDirty st)
   \<and> (fst (handleSave st r l) \<noteq> [] \<longrightarrow> isDirty st \<and> truthy (selectedPromptId st))
   \<and> (isDirty st \<and> selectedPromptId st = Some pid \<and> pid \<noteq> [] \<longrightarrow>
        fst (handleSave st r l) =
          UpdateContextStylePrompt pid (or_null (trim (draftName st)))
             (or_null (trim (draftDescription st))) (or_null (trim (draftPrompt st)))
           # (if r = StatusOk () then [GetContextStylePrompts] else []))
   \<and> (isDirty st \<and> truthy (selectedPromptId st) \<and> r = StatusOk () \<and> l = StatusOk d \<longrightarrow>
        prompts_editor (snd (handleSave st r l)) = d)"
proof (intro conjI impI)
  assume "selectedPrompt st = Some sp"
  then show "isDirty st \<longleftrightarrow>
         draftName st \<noteq> name_prompt sp \<or> draftDescription st \<noteq> description_prompt sp
         \<or> draftPrompt st \<noteq> prompt sp"
    by (simp add: isDirty_def)
next
  assume "selectedPrompt st = None"
  then show "\<not> isDirty st" by (simp add: isDirty_def)
next
  assume a: "fst (handleSave st r l) \<noteq> []"
  then show "isDirty st"
    by (auto simp: handleSave_def split: option.splits if_splits)
  from a show "truthy (selectedPromptId st)"
    by (auto simp: handleSave_def truthy_def split: option.splits if_splits)
next
  assume "isDirty st \<and> selectedPromptId st = Some pid \<and> pid \<noteq> []"
  then show "fst (handleSave st r l) =
          UpdateContextStylePrompt pid (or_null (trim (draftName st)))
             (or_null (trim (draftDescription st))) (or_null (trim (draftPrompt st)))
           # (if r = StatusOk () then [GetContextStylePrompts] else [])"
    by (cases r) (simp_all add: handleSave_def loadPrompts_def split: prod.splits)
next
  assume "isDirty st \<and> truthy (selectedPromptId st) \<and> r = StatusOk () \<and> l = StatusOk d"
  then show "prompts_editor (snd (handleSave st r l)) = d"
    by (auto simp: handleSave_def loadPrompts_def truthy_def draftEffect_def
        split: option.splits prod.splits)
qed

theorem prompt_editor_save_witness:
  "selectedPrompt editor_renamed = Some chat_prompt
   \<and> draftName editor_renamed \<noteq> name_prompt chat_prompt
   \<and> isDirty editor_renamed
   \<and> selectedPromptId editor_renamed = Some ''chat''
   \<and> fst (handleSave editor_renamed (StatusOk ()) (StatusOk [chat_prompt]))
       = [UpdateContextStylePrompt ''chat'' (Some ''Chatty'') (Some ''Casual messages'')
            (Some ''Rewrite as a chat message''), GetContextStylePrompts]
   \<and> prompts_editor (snd (handleSave editor_renamed (StatusOk ()) (StatusOk [chat_prompt])))
       = [chat_prompt]"
proof -
  have h1: "selectedPrompt editor_renamed = Some chat_prompt"
    by (simp add: selectedPrompt_def editor_renamed_def chat_prompt_def)
  have h2: "draftName editor_renamed \<noteq> name_prompt chat_prompt"
    by (simp add: editor_renamed_def chat_prompt_def)
  have h3: "selectedPromptId editor_renamed = Some ''chat'' \<and> ''chat'' \<noteq> []"
    by (simp add: editor_renamed_def)
  have h4: "truthy (selectedPromptId editor_renamed)"
    by (simp add: truthy_def editor_renamed_def)
  have h5: "or_null (trim (draftName editor_renamed)) = Some ''Chatty''
    \<and> or_null (trim (draftDescription editor_renamed)) = Some ''Casual messages''
    \<and> or_null (trim (draftPrompt editor_renamed)) = Some ''Rewrite as a chat message''"
    by (simp add: editor_renamed_def or_null_def trim_def is_space_def)
  from prompt_editor_save
         [of editor_renamed chat_prompt "StatusOk ()" "StatusOk [chat_prompt]" "''chat''"
            "[chat_prompt]"]
       h1 h2 h3 h4 h5
  show ?thesis by simp
qed

section \<open>Properties of the bridge client\<close>

lemmas client_defs =
  client_init_def connect_def ws_open_def WS_PORT_def onopen_def onclose_def onerror_def
  setInterval_def clearInterval_def timer_set_def set_readyState_def sendCurrentContext_def
  sendCurrentContext_resume_def sendContext_def

lemma timer_inv_init: "timer_inv client_init"
  by (simp add: timer_inv_def client_init_def connect_def ws_open_def)

lemma timer_inv_set_readyState [simp]: "timer_inv (set_readyState c i r) = timer_inv c"
  by (simp add: timer_inv_def set_readyState_def)

lemma timer_inv_connect: "timer_inv c \<Longrightarrow> timer_inv (connect c)"
  by (simp add: timer_inv_def connect_def)

lemma timer_inv_sendCurrentContext [simp]: "timer_inv (sendCurrentContext c) = timer_inv c"
  by (simp add: timer_inv_def sendCurrentContext_def)

lemma timer_inv_resume: "timer_inv c \<Longrightarrow> timer_inv (sendCurrentContext_resume c tabs)"
  by (auto simp: timer_inv_def sendCurrentContext_resume_def sendContext_def Let_def
      split: list.splits option.splits)

lemma timer_inv_onopen: "timer_inv c \<Longrightarrow> timer_inv (onopen c)"
  by (auto simp: timer_inv_def onopen_def clearInterval_def timer_set_def sendCurrentContext_def
      split: option.splits)

lemma timer_inv_onclose: "timer_inv c \<Longrightarrow> timer_inv (onclose c)"
  by (auto simp: timer_inv_def onclose_def setInterval_def timer_set_def Let_def
      split: option.splits)

lemma timer_inv_step:
  assumes "timer_inv c" and "step c e = Some c'"
  shows "timer_inv c'"
proof (cases e)
  case (SocketOpen i)
  with assms show ?thesis by (auto simp: timer_inv_onopen split: if_splits)
next
  case (SocketClosing i)
  with assms show ?thesis by (auto split: if_splits)
next
  case (SocketClose i)
  with assms show ?thesis by (auto simp: timer_inv_onclose split: if_splits)
next
  case (SocketError i)
  with assms show ?thesis by (auto simp: onerror_def split: if_splits)
next
  case (TimerFired t)
  with assms show ?thesis by (auto simp: timer_inv_connect split: if_splits)
next
  case TabActivated
  with assms show ?thesis by auto
next
  case (TabUpdated complete active)
  with assms show ?thesis by (auto split: if_splits)
next
  case (TabsQueryResolved tabs)
  with assms show ?thesis by (auto simp: timer_inv_resume split: if_splits)
next
  case TabsQueryRejected
  with assms show ?thesis by (auto simp: timer_inv_def split: if_splits)
qed

lemma reachable_timer_inv: "reachable c \<Longrightarrow> timer_inv c"
  by (induction rule: reachable.induct) (auto intro: timer_inv_init timer_inv_step)

lemma run_reachable: "reachable c \<Longrightarrow> run c es = Some c' \<Longrightarrow> reachable c'"
proof (induction es arbitrary: c)
  case Nil
  then show ?case by simp
next
  case (Cons e es)
  then show ?case
    by (auto split: option.splits intro: reachable.step)
qed

lemma onclose_timer:
  assumes "timer_inv c"
  shows "ws (onclose c) = None
     \<and> (\<exists>t. reconnectInterval (onclose c) = Some t \<and> timers (onclose c) = [(t, 5000)])
     \<and> (timers c \<noteq> [] \<longrightarrow> timers (onclose c) = timers c
           \<and> reconnectInterval (onclose c) = reconnectInterval c)"
  using assms
  by (auto simp: timer_inv_def onclose_def setInterval_def timer_set_def Let_def
      split: option.splits)

lemma run_retrying: "run client_init [SocketClose 0, TimerFired 1] = Some client_retrying"
  by (simp add: client_defs client_retrying_def)


lemma step_keeps_timers:
  assumes "timer_inv c" and "step c e = Some c'" and "timers c \<noteq> []"
    and "\<forall>i. e \<noteq> SocketOpen i"
  shows "timers c' = timers c"
proof (cases e)
  case (SocketOpen i)
  with assms show ?thesis by simp
next
  case (SocketClosing i)
  with assms show ?thesis by (auto simp: set_readyState_def split: if_splits)
next
  case (SocketClose i)
  from assms(1) have "timer_inv (set_readyState c i CLOSED)" by simp
  from onclose_timer [OF this] assms SocketClose show ?thesis
    by (auto simp: set_readyState_def split: if_splits)
next
  case (SocketError i)
  with assms show ?thesis by (auto simp: onerror_def split: if_splits)
next
  case (TimerFired t)
  with assms show ?thesis by (auto simp: connect_def split: if_splits)
next
  case TabActivated
  with assms show ?thesis by (auto simp: sendCurrentContext_def)
next
  case (TabUpdated complete active)
  with assms show ?thesis by (auto simp: sendCurrentContext_def split: if_splits)
next
  case (TabsQueryResolved tabs)
  with assms show ?thesis
    by (auto simp: sendCurrentContext_resume_def sendContext_def Let_def
        split: if_splits list.splits option.splits)
next
  case TabsQueryRejected
  with assms show ?thesis by (auto split: if_splits)
qed


lemma step_close_timer:
  assumes "timer_inv c" and "step c (SocketClose i) = Some c'"
  shows "ws c' = None \<and> (\<exists>t. reconnectInterval c' = Some t \<and> timers c' = [(t, 5000)])"
    and "timers c \<noteq> [] \<Longrightarrow> timers c' = timers c \<and> reconnectInterval c' = reconnectInterval c"
proof -
  from assms(1) have inv: "timer_inv (set_readyState c i CLOSED)" by simp
  from assms(2) have c': "c' = onclose (set_readyState c i CLOSED)"
    by (simp split: if_splits)
  have same: "timers (set_readyState c i CLOSED) = timers c"
    "reconnectInterval (set_readyState c i CLOSED) = reconnectInterval c"
    by (simp_all add: set_readyState_def)
  from onclose_timer [OF inv] c'
  show "ws c' = None \<and> (\<exists>t. reconnectInterval c' = Some t \<and> timers c' = [(t, 5000)])"
    by simp
  from onclose_timer [OF inv] c' same
  show "timers c \<noteq> [] \<Longrightarrow> timers c' = timers c \<and> reconnectInterval c' = reconnectInterval c"
    by simp
qed

lemma step_timer_fired:
  assumes "step c (TimerFired t) = Some c'"
  shows "c' = connect c"
    and "\<not> ws_open c \<Longrightarrow> sockets c' = sockets c @ [\<lparr>port = WS_PORT, readyState = CONNECTING\<rparr>]"
  using assms by (auto simp: connect_def split: if_splits)

lemma onopen_clears_timer:
  assumes "timer_inv c"
  shows "reconnectInterval (onopen c) = None \<and> timers (onopen c) = []
       \<and> pending_queries (onopen c) = Suc (pending_queries c) \<and> sent (onopen c) = sent c
       \<and> ws (onopen c) = ws c \<and> sockets (onopen c) = sockets c"
  using assms
  by (auto simp: timer_inv_def onopen_def clearInterval_def timer_set_def sendCurrentContext_def
      split: option.splits)

lemma step_open_timer:
  assumes "timer_inv c" and "step c (SocketOpen i) = Some c'"
  shows "timers c' = [] \<and> reconnectInterval c' = None"
proof -
  from assms(1) have inv: "timer_inv (set_readyState c i OPEN)" by simp
  from assms(2) have "c' = onopen (set_readyState c i OPEN)"
    by (simp split: if_splits)
  with onopen_clears_timer [OF inv] show ?thesis by simp
qed

text \<open>
  C7. In every reachable state of the bridge client at most one reconnect timer is
  active. A close event of any socket clears \<^verbatim>\<open>ws\<close> and leaves exactly one active timer,
  with period 5000 ms, held in \<^verbatim>\<open>reconnectInterval\<close>; when a timer was already active
  the close event creates no second one and keeps the old one. The timer stays active
  over every event other than a socket open event, and each time it fires \<^verbatim>\<open>connect\<close>
  runs, which starts a new connection attempt unless \<^verbatim>\<open>ws\<close> is an open socket. A socket
  open event cancels the timer: afterwards no timer is active, \<^verbatim>\<open>reconnectInterval\<close> is
  \<^verbatim>\<open>null\<close>, and no timer can fire.
\<close>

theorem reconnect_timer_unique:
  assumes "reachable c"
  shows "length (timers c) \<le> 1
    \<and> (\<forall>i c'. step c (SocketClose i) = Some c' \<longrightarrow>
          ws c' = None \<and> (\<exists>t. reconnectInterval c' = Some t \<and> timers c' = [(t, 5000)]))
    \<and> (\<forall>i c'. step c (SocketClose i) = Some c' \<and> timers c \<noteq> [] \<longrightarrow>
          timers c' = timers c \<and> reconnectInterval c' = reconnectInterval c)
    \<and> (\<forall>e c'. step c e = Some c' \<and> timers c \<noteq> [] \<and> (\<forall>i. e \<noteq> SocketOpen i) \<longrightarrow>
          timers c' = timers c)
    \<and> (\<forall>t c'. step c (TimerFired t) = Some c' \<longrightarrow>
          c' = connect c
          \<and> (\<not> ws_open c \<longrightarrow>
               sockets c' = sockets c @ [\<lparr>port = WS_PORT, readyState = CONNECTING\<rparr>]))
    \<and> (\<forall>i c'. step c (SocketOpen i) = Some c' \<longrightarrow>
          timers c' = [] \<and> reconnectInterval c' = None
          \<and> (\<forall>t. step c' (TimerFired t) = None))"
proof (intro conjI allI impI)
  from assms have inv: "timer_inv c" by (rule reachable_timer_inv)
  show "length (timers c) \<le> 1"
    using inv by (auto simp: timer_inv_def split: option.splits)
  fix i c'
  assume s: "step c (SocketClose i) = Some c'"
  from step_close_timer(1) [OF inv s]
  show "ws c' = None" and "\<exists>t. reconnectInterval c' = Some t \<and> timers c' = [(t, 5000)]"
    by simp_all
next
  from assms have inv: "timer_inv c" by (rule reachable_timer_inv)
  fix i c'
  assume s: "step c (SocketClose i) = Some c' \<and> timers c \<noteq> []"
  then have s1: "step c (SocketClose i) = Some c'" and s2: "timers c \<noteq> []"
    by simp_all
  from step_close_timer(2) [OF inv s1 s2]
  show "timers c' = timers c" and "reconnectInterval c' = reconnectInterval c"
    by simp_all
next
  from assms have inv: "timer_inv c" by (rule reachable_timer_inv)
  fix e c'
  assume s: "step c e = Some c' \<and> timers c \<noteq> [] \<and> (\<forall>i. e \<noteq> SocketOpen i)"
  then have s1: "step c e = Some c'" and s2: "timers c \<noteq> []"
    and s3: "\<forall>i. e \<noteq> SocketOpen i"
    by simp_all
  from step_keeps_timers [OF inv s1 s2 s3] show "timers c' = timers c" .
next
  fix t c'
  assume s: "step c (TimerFired t) = Some c'"
  from step_timer_fired(1) [OF s] show "c' = connect c" .
  assume "\<not> ws_open c"
  with step_timer_fired(2) [OF s]
  show "sockets c' = sockets c @ [\<lparr>port = WS_PORT, readyState = CONNECTING\<rparr>]" .
next
  from assms have inv: "timer_inv c" by (rule reachable_timer_inv)
  fix i c'
  assume s: "step c (SocketOpen i) = Some c'"
  from step_open_timer [OF inv s]
  show none: "timers c' = []" and "reconnectInterval c' = None"
    by simp_all
  fix t
  from none show "step c' (TimerFired t) = None" by simp
qed

theorem reconnect_timer_unique_witness:
  "reachable client_retrying
   \<and> length (timers client_retrying) \<le> 1
   \<and> timers client_retrying = [(1, 5000)]
   \<and> step client_retrying (SocketClose 1)
       = Some (client_retrying\<lparr>ws := None,
            sockets := [\<lparr>port = 9876, readyState = CLOSED\<rparr>, \<lparr>port = 9876, readyState = CLOSED\<rparr>]\<rparr>)
   \<and> timers (client_retrying\<lparr>ws := None,
            sockets := [\<lparr>port = 9876, readyState = CLOSED\<rparr>, \<lparr>port = 9876, readyState = CLOSED\<rparr>]\<rparr>)
       = timers client_retrying
   \<and> step client_retrying (SocketOpen 1) = Some client_reconnected
   \<and> timers client_reconnected = []
   \<and> step client_reconnected (TimerFired 1) = None"
proof -
  have r: "reachable client_retrying"
    using run_reachable [OF reachable.init run_retrying] .
  have s: "step client_retrying (SocketClose 1)
       = Some (client_retrying\<lparr>ws := None,
            sockets := [\<lparr>port = 9876, readyState = CLOSED\<rparr>, \<lparr>port = 9876, readyState = CLOSED\<rparr>]\<rparr>)"
    by (simp add: client_defs client_retrying_def)
  have t: "timers client_retrying = [(1, 5000)]"
    by (simp add: client_retrying_def)
  have o: "step client_retrying (SocketOpen 1) = Some client_reconnected"
    by (simp add: client_defs client_retrying_def client_reconnected_def)
  note th = reconnect_timer_unique [OF r]
  from th have one: "length (timers client_retrying) \<le> 1"
    by (rule conjunct1)
  from th have "\<forall>i c'. step client_retrying (SocketClose i) = Some c'
        \<and> timers client_retrying \<noteq> [] \<longrightarrow>
      timers c' = timers client_retrying
      \<and> reconnectInterval c' = reconnectInterval client_retrying"
    by (elim conjE)
  from this [rule_format, of 1] s t
  have keep: "timers (client_retrying\<lparr>ws := None,
            sockets := [\<lparr>port = 9876, readyState = CLOSED\<rparr>, \<lparr>port = 9876, readyState = CLOSED\<rparr>]\<rparr>)
       = timers client_retrying"
    by simp
  from th have "\<forall>i c'. step client_retrying (SocketOpen i) = Some c' \<longrightarrow>
      timers c' = [] \<and> reconnectInterval c' = None \<and> (\<forall>t. step c' (TimerFired t) = None)"
    by (elim conjE)
  from this [rule_format, OF o]
  have opened: "timers client_reconnected = []"
    and quiet: "step client_reconnected (TimerFired 1) = None"
    by simp_all
  from r one s t keep o opened quiet show ?thesis by simp
qed

text \<open>
  C8 as stated fails: the first socket opens, and when the tab query reports no active
  tab, or a tab without a url, the socket is open and nothing has been sent on it.
\<close>

theorem onopen_no_push_counterexample:
  "map_option open_sockets (run client_init [SocketOpen 0, TabsQueryResolved []]) = Some [0]
   \<and> map_option sent (run client_init [SocketOpen 0, TabsQueryResolved []]) = Some []
   \<and> map_option open_sockets (run client_init [SocketOpen 0, TabsQueryResolved [blank_tab]])
       = Some [0]
   \<and> map_option sent (run client_init [SocketOpen 0, TabsQueryResolved [blank_tab]]) = Some []"
  by (simp add: client_defs open_sockets_def blank_tab_def)

lemma resume_sends:
  assumes "ws c = Some i" and "i < length (sockets c)" and "readyState (sockets c ! i) = OPEN"
    and "tab_url tab = Some u" and "u \<noteq> []" and "tab_hostname tab = Some h"
  shows "sent (sendCurrentContext_resume c (tab # tabs)) =
         sent c @ [(i, \<lparr>browser = ''chrome'', url = u, domain = h,
                       page_title = (case tab_title tab of None \<Rightarrow> [] | Some t \<Rightarrow> t),
                       detected_app = detectApp h\<rparr>)]"
  using assms by (simp add: sendCurrentContext_resume_def sendContext_def)

lemma resume_sends_nothing:
  "sent (sendCurrentContext_resume c []) = sent c"
  "\<not> truthy (tab_url tab) \<Longrightarrow> sent (sendCurrentContext_resume c (tab # tabs)) = sent c"
  by (auto simp: sendCurrentContext_resume_def truthy_def split: option.splits)

text \<open>
  C8, amended. On every socket open event the client cancels the pending reconnect
  timer, if any, and starts \<^verbatim>\<open>sendCurrentContext\<close>, that is, one tab query; the socket
  that opened is \<^verbatim>\<open>OPEN\<close> in the state the event leaves. When the query answers with an
  active tab that has a non-empty url that parses, and at that moment \<^verbatim>\<open>ws\<close> is the
  socket that opened and this socket is still \<^verbatim>\<open>OPEN\<close>, the full context of that tab
  (browser, url, domain, page title, detected app) is sent on that socket; when the
  query answers with no tab, or with a tab without a url, nothing is sent.
\<close>

theorem onopen_resync:
  assumes "reachable c" and "step c (SocketOpen i) = Some c1"
  shows "reconnectInterval c1 = None \<and> timers c1 = []
     \<and> pending_queries c1 = Suc (pending_queries c) \<and> sent c1 = sent c
     \<and> i < length (sockets c1) \<and> readyState (sockets c1 ! i) = OPEN
     \<and> (\<forall>c2 tab tabs u h.
          ws c2 = Some i \<and> i < length (sockets c2) \<and> readyState (sockets c2 ! i) = OPEN
          \<and> tab_url tab = Some u \<and> u \<noteq> [] \<and> tab_hostname tab = Some h \<longrightarrow>
          sent (sendCurrentContext_resume c2 (tab # tabs)) =
            sent c2 @ [(i, \<lparr>browser = ''chrome'', url = u, domain = h,
                           page_title = (case tab_title tab of None \<Rightarrow> [] | Some t \<Rightarrow> t),
                           detected_app = detectApp h\<rparr>)])
     \<and> (\<forall>c2 tab tabs. \<not> truthy (tab_url tab) \<longrightarrow>
          sent (sendCurrentContext_resume c2 (tab # tabs)) = sent c2)
     \<and> (\<forall>c2. sent (sendCurrentContext_resume c2 []) = sent c2)"
proof -
  from assms(1) have "timer_inv c" by (rule reachable_timer_inv)
  then have inv: "timer_inv (set_readyState c i OPEN)" by simp
  from assms(2) have i: "i < length (sockets c)"
    and c1: "c1 = onopen (set_readyState c i OPEN)"
    by (simp_all split: if_splits)
  note o = onopen_clears_timer [OF inv]
  have sock: "sockets c1 = (sockets c)[i := (sockets c ! i)\<lparr>readyState := OPEN\<rparr>]"
    using o c1 by (simp add: set_readyState_def)
  have len: "i < length (sockets c1)" and rs: "readyState (sockets c1 ! i) = OPEN"
    using sock i by simp_all
  have p1: "reconnectInterval c1 = None" and p2: "timers c1 = []"
    and p3: "pending_queries c1 = Suc (pending_queries c)" and p4: "sent c1 = sent c"
    using o c1 by (simp_all add: set_readyState_def)
  have p5: "sent (sendCurrentContext_resume c2 (tab # tabs)) =
            sent c2 @ [(i, \<lparr>browser = ''chrome'', url = u, domain = h,
                           page_title = (case tab_title tab of None \<Rightarrow> [] | Some t \<Rightarrow> t),
                           detected_app = detectApp h\<rparr>)]"
    if "ws c2 = Some i \<and> i < length (sockets c2) \<and> readyState (sockets c2 ! i) = OPEN
          \<and> tab_url tab = Some u \<and> u \<noteq> [] \<and> tab_hostname tab = Some h"
    for c2 tab tabs u h
    using that resume_sends [of c2 i tab u h tabs] by simp
  show ?thesis
    using p1 p2 p3 p4 p5 len rs resume_sends_nothing by (intro conjI allI impI) simp_all
qed

lemma step_connected: "step client_init (SocketOpen 0) = Some client_connected"
  by (simp add: client_defs client_connected_def)

theorem onopen_resync_witness:
  "reachable client_init
   \<and> step client_init (SocketOpen 0) = Some client_connected
   \<and> timers client_connected = []
   \<and> ws client_connected = Some 0
   \<and> readyState (sockets client_connected ! 0) = OPEN
   \<and> sent (sendCurrentContext_resume client_connected [gmail_tab])
       = [(0, \<lparr>browser = ''chrome'', url = ''https://mail.google.com/mail/u/0/'',
               domain = ''mail.google.com'', page_title = ''Inbox'',
               detected_app = AppId ''gmail''\<rparr>)]"
proof -
  note th = onopen_resync [OF reachable.init step_connected]
  have w: "ws client_connected = Some 0" and s: "sent client_connected = []"
    by (simp_all add: client_connected_def)
  have g: "tab_url gmail_tab = Some ''https://mail.google.com/mail/u/0/''"
    "tab_hostname gmail_tab = Some ''mail.google.com''" "tab_title gmail_tab = Some ''Inbox''"
    by (simp_all add: gmail_tab_def)
  have d: "detectApp ''mail.google.com'' = AppId ''gmail''"
    by (simp add: detectApp_def)
  from th have t: "timers client_connected = []" by simp
  from th have l: "0 < length (sockets client_connected)"
    and rs: "readyState (sockets client_connected ! 0) = OPEN"
    by simp_all
  from th have "\<forall>c2 tab tabs u h.
          ws c2 = Some 0 \<and> 0 < length (sockets c2) \<and> readyState (sockets c2 ! 0) = OPEN
          \<and> tab_url tab = Some u \<and> u \<noteq> [] \<and> tab_hostname tab = Some h \<longrightarrow>
          sent (sendCurrentContext_resume c2 (tab # tabs)) =
            sent c2 @ [(0, \<lparr>browser = ''chrome'', url = u, domain = h,
                           page_title = (case tab_title tab of None \<Rightarrow> [] | Some t \<Rightarrow> t),
                           detected_app = detectApp h\<rparr>)]"
    by (elim conjE)
  from this [rule_format, of client_connected gmail_tab
      "''https://mail.google.com/mail/u/0/''" "''mail.google.com''" "[]"] w l rs s g d
  have "sent (sendCurrentContext_resume client_connected [gmail_tab])
       = [(0, \<lparr>browser = ''chrome'', url = ''https://mail.google.com/mail/u/0/'',
               domain = ''mail.google.com'', page_title = ''Inbox'',
               detected_app = AppId ''gmail''\<rparr>)]"
    by simp
  with reachable.init step_connected t w rs show ?thesis by simp
qed

lemma connect_noop_when_open: "ws_open c \<Longrightarrow> connect c = c"
  by (simp add: connect_def)

text \<open>
  C10 at a failing input. \<^verbatim>\<open>connect\<close> is a no-op when \<^verbatim>\<open>ws\<close> is an open socket
  (\<open>connect_noop_when_open\<close>), but not when \<^verbatim>\<open>ws\<close> is still connecting: the first socket
  closes, the timer fires and a second socket starts connecting, the timer fires again
  before that socket has opened and a third socket is created, and then both open. Two
  connections are live at the same time.
\<close>

theorem connect_second_live_connection:
  "map_option open_sockets
     (run client_init [SocketClose 0, TimerFired 1, TimerFired 1, SocketOpen 1, SocketOpen 2])
   = Some [1, 2]"
  by (simp add: client_defs open_sockets_def)

end
